theory Spec2Isabelle
  imports Complex_Main "HOL-Library.AList" "HOL-Library.Multiset" "HOL-Library.Log_Nat"
begin

section \<open>Common types (types.ts) and the decorators\<close>

text \<open>
  The numbers of the game (quantities, stack limits, slot counts, statistics, levels) are
  whole numbers and are modelled as \<open>int\<close>. A \<open>Math.random()\<close> draw is a \<open>real\<close>.

  A JavaScript number is an IEEE double. A double holds every whole number up to \<open>2^53\<close> in
  magnitude, and a sum or difference of whole numbers that stays in that range is exact.
  Beyond it a double has 53 significant bits, and a result is rounded to the nearest
  double, a tie going to the even significand. \<open>roundDouble\<close> is that rounding on whole
  numbers (of magnitude below \<open>2^1024\<close>, where doubles end): \<open>roundHalfEven m s\<close> rounds
  \<open>m \<ge> 0\<close> to a multiple of \<open>2^s\<close>, and \<open>s\<close> is the number of bits that \<open>m\<close> has beyond 53.
\<close>

definition roundHalfEven :: "int \<Rightarrow> nat \<Rightarrow> int" where
  "roundHalfEven m s =
     (let q = m div 2 ^ s; r = m mod 2 ^ s
      in (if 2 * r > 2 ^ s \<or> (2 * r = 2 ^ s \<and> odd q) then q + 1 else q) * 2 ^ s)"

definition roundDouble :: "int \<Rightarrow> int" where
  "roundDouble n = sgn n * roundHalfEven \<bar>n\<bar> (nat (bitlen \<bar>n\<bar> - 53))"

datatype CharacterClass = warrior | mage | rogue

datatype ItemType = weapon | armor | consumable | misc

datatype ActionType = Attack | Defend | Use_item | Flee

text \<open>
  The \<open>Error\<close> objects thrown by the game code, one constructor per \<open>throw\<close>:
  \<^item> \<open>ValidationFailed propertyName errorMessage\<close> is the decorator's
    \<open>Validation failed for ${propertyName}: ${errorMessage}\<close>;
  \<^item> \<open>CannotAttackWhileDefeated name\<close> is \<open>${name} cannot attack while defeated\<close>.
\<close>

datatype error = ValidationFailed string string | CannotAttackWhileDefeated string

text \<open>
  The decorator \<open>validate(validationFn, errorMessage)\<close> wraps a method: when the predicate
  rejects the arguments it throws before the method runs, otherwise it runs the method.
  A method takes the receiver \<open>this\<close> and its arguments and returns what it returned or
  threw, together with the receiver as the call left it. The decorator \<open>log\<close> only
  prints and passes arguments and result through; it is the identity here.
\<close>

definition validate ::
  "('args \<Rightarrow> bool) \<Rightarrow> string \<Rightarrow> string \<Rightarrow> ('self \<Rightarrow> 'args \<Rightarrow> (error + 'r) \<times> 'self)
     \<Rightarrow> 'self \<Rightarrow> 'args \<Rightarrow> (error + 'r) \<times> 'self" where
  "validate validationFn errorMessage propertyName method this args =
     (if \<not> validationFn args then (Inl (ValidationFailed propertyName errorMessage), this)
      else method this args)"

section \<open>Items and the inventory (items/Inventory.ts)\<close>

text \<open>
  \<open>ItemData\<close> is the interface of types.ts; its fields \<open>id\<close>, \<open>name\<close>, \<open>type\<close> and \<open>value\<close>
  carry the prefix \<open>item_\<close> here. \<open>BaseItem\<close> extends it with what the subclasses add and
  the type guards of the inventory probe: \<open>stack\<close> is \<open>Some\<close> exactly when the object has
  the properties of the interface \<open>Stackable\<close>, \<open>weaponProps\<close> holds a weapon's
  \<open>attackBonus\<close> and \<open>durability\<close>. The effect closure of a \<open>Consumable\<close> and the
  methods that run it (\<open>use\<close>, \<open>useItem\<close>) have no part in the operations below and are
  left out, as are the methods that only print.
\<close>

record ItemData =
  item_id :: string
  item_name :: string
  item_type :: ItemType
  quantity :: int
  item_value :: int

record Stackable =
  stackable :: bool
  maxStack :: int

record BaseItem = ItemData +
  stack :: "Stackable option"
  weaponProps :: "(int \<times> int) option"

definition Weapon :: "string \<Rightarrow> string \<Rightarrow> int \<Rightarrow> int \<Rightarrow> int \<Rightarrow> int option \<Rightarrow> BaseItem" where
  "Weapon i n q v attackBonus durability =
     \<lparr>item_id = i, item_name = n, item_type = weapon, quantity = q, item_value = v,
      stack = None,
      weaponProps = Some (attackBonus, (case durability of None \<Rightarrow> 100 | Some d \<Rightarrow> d))\<rparr>"

definition Consumable :: "string \<Rightarrow> string \<Rightarrow> int \<Rightarrow> int \<Rightarrow> BaseItem" where
  "Consumable i n q v =
     \<lparr>item_id = i, item_name = n, item_type = consumable, quantity = q, item_value = v,
      stack = Some \<lparr>stackable = True, maxStack = 99\<rparr>,
      weaponProps = None\<rparr>"

text \<open>
  The \<open>Map<string, T>\<close> of the inventory keeps its entries in insertion order; \<open>set\<close> on a
  stored key overwrites the value where it stands and on a new key appends an entry.
  It is an association list, its \<open>size\<close> the number of entries.
\<close>

type_synonym 'v JSMap = "(string \<times> 'v) list"

definition Map_get :: "'v JSMap \<Rightarrow> string \<Rightarrow> 'v option" where
  "Map_get m k = map_of m k"

definition Map_set :: "'v JSMap \<Rightarrow> string \<Rightarrow> 'v \<Rightarrow> 'v JSMap" where
  "Map_set m k v = AList.update k v m"


definition Map_size :: "'v JSMap \<Rightarrow> int" where
  "Map_size m = int (length m)"

definition Map_values :: "'v JSMap \<Rightarrow> 'v list" where
  "Map_values m = map snd m"

record Inventory =
  items :: "BaseItem JSMap"
  maxSlots :: int

definition Inventory_new :: "int option \<Rightarrow> Inventory" where
  "Inventory_new slots = \<lparr>items = [], maxSlots = (case slots of None \<Rightarrow> 20 | Some n \<Rightarrow> n)\<rparr>"

definition isStackable :: "BaseItem \<Rightarrow> bool" where
  "isStackable item = (case stack item of None \<Rightarrow> False | Some s \<Rightarrow> stackable s = True)"

definition isFull :: "Inventory \<Rightarrow> bool" where
  "isFull this = (Map_size (items this) \<ge> maxSlots this)"

definition isEmpty :: "Inventory \<Rightarrow> bool" where
  "isEmpty this = (Map_size (items this) = 0)"

definition getItem :: "Inventory \<Rightarrow> string \<Rightarrow> BaseItem option" where
  "getItem this itemId = Map_get (items this) itemId"

definition getAllItems :: "Inventory \<Rightarrow> BaseItem list" where
  "getAllItems this = Map_values (items this)"

text \<open>
  The body of \<open>addItem\<close>. The stored object is updated in place when the stack grows
  (\<open>existingItem.quantity += item.quantity\<close>), which keeps its slot.
\<close>

definition addItem_body :: "Inventory \<Rightarrow> BaseItem \<Rightarrow> (error + bool) \<times> Inventory" where
  "addItem_body this item =
     (let existingItem = Map_get (items this) (item_id item);
          insert_new =
            (if Map_size (items this) \<ge> maxSlots this then (Inr False, this)
             else (Inr True, this\<lparr>items := Map_set (items this) (item_id item) item\<rparr>))
      in case existingItem of
           None \<Rightarrow> insert_new
         | Some e \<Rightarrow>
             if isStackable e
             then (let stackable = the (stack e) in
                   if quantity e + quantity item \<le> maxStack stackable
                   then (Inr True,
                         this\<lparr>items := Map_set (items this) (item_id item)
                                          (e\<lparr>quantity := quantity e + quantity item\<rparr>)\<rparr>)
                   else (Inr False, this))
             else insert_new)"

text \<open>
  \<open>addItem\<close> is decorated with \<open>validate\<close> on \<open>args[0] && typeof args[0] === 'object'\<close>;
  every \<open>BaseItem\<close> is an object, so the predicate holds of every item.
\<close>

definition addItem :: "Inventory \<Rightarrow> BaseItem \<Rightarrow> (error + bool) \<times> Inventory" where
  "addItem = validate (\<lambda>item. True) ''Item must be a valid item object'' ''addItem'' addItem_body"


text \<open>A sequence of \<open>addItem\<close> calls on one inventory, results discarded.\<close>

fun addItems :: "Inventory \<Rightarrow> BaseItem list \<Rightarrow> Inventory" where
  "addItems this [] = this"
| "addItems this (item # rest) = addItems (snd (addItem this item)) rest"

section \<open>Characters (characters/BaseCharacter.ts, characters/PlayerCharacters.ts)\<close>

record Stats =
  health :: int
  maxHealth :: int
  mana :: int
  maxMana :: int
  attack :: int
  defense :: int
  speed :: int

record Position =
  pos_x :: int
  pos_y :: int

text \<open>
  \<open>Position\<close> has the fields \<open>x\<close> and \<open>y\<close>, here \<open>pos_x\<close> and \<open>pos_y\<close>.
  A \<open>BaseCharacter\<close> record is an object of a subclass of \<open>BaseCharacter\<close>. The protected fields \<open>_stats\<close>, \<open>_position\<close>,
  \<open>_level\<close> and \<open>_experience\<close> carry the prefix \<open>c_\<close>. \<open>c_stealthActive\<close> is the private
  field \<open>_stealthActive\<close> of \<open>Rogue\<close>: \<open>Some b\<close> in a \<open>Rogue\<close>, \<open>None\<close> in an object of a
  class that has no such field.
\<close>

record BaseCharacter =
  name :: string
  characterClass :: CharacterClass
  c_stats :: Stats
  c_position :: Position
  c_level :: int
  c_experience :: int
  c_stealthActive :: "bool option"

definition BaseCharacter_new ::
  "string \<Rightarrow> CharacterClass \<Rightarrow> Stats \<Rightarrow> Position option \<Rightarrow> BaseCharacter" where
  "BaseCharacter_new n cls baseStats startPosition =
     \<lparr>name = n, characterClass = cls, c_stats = baseStats,
      c_position = (case startPosition of None \<Rightarrow> \<lparr>pos_x = 0, pos_y = 0\<rparr> | Some p \<Rightarrow> p),
      c_level = 1, c_experience = 0, c_stealthActive = None\<rparr>"

definition Warrior :: "string \<Rightarrow> Position option \<Rightarrow> BaseCharacter" where
  "Warrior n pos =
     BaseCharacter_new n warrior
       \<lparr>health = 120, maxHealth = 120, mana = 30, maxMana = 30,
        attack = 25, defense = 15, speed = 8\<rparr> pos"

definition Mage :: "string \<Rightarrow> Position option \<Rightarrow> BaseCharacter" where
  "Mage n pos =
     BaseCharacter_new n mage
       \<lparr>health = 80, maxHealth = 80, mana = 100, maxMana = 100,
        attack = 15, defense = 8, speed = 12\<rparr> pos"

definition Rogue :: "string \<Rightarrow> Position option \<Rightarrow> BaseCharacter" where
  "Rogue n pos =
     (BaseCharacter_new n rogue
        \<lparr>health = 90, maxHealth = 90, mana = 50, maxMana = 50,
         attack = 20, defense = 10, speed = 18\<rparr> pos)\<lparr>c_stealthActive := Some False\<rparr>"

definition isAlive :: "BaseCharacter \<Rightarrow> bool" where
  "isAlive this = (health (c_stats this) > 0)"

definition takeDamage_body :: "BaseCharacter \<Rightarrow> int \<Rightarrow> (error + int) \<times> BaseCharacter" where
  "takeDamage_body this damage =
     (let actualDamage = max 1 (damage - defense (c_stats this));
          this' = this\<lparr>c_stats := (c_stats this)\<lparr>health :=
                          max 0 (health (c_stats this) - actualDamage)\<rparr>\<rparr>
      in (Inr actualDamage, this'))"

definition takeDamage :: "BaseCharacter \<Rightarrow> int \<Rightarrow> (error + int) \<times> BaseCharacter" where
  "takeDamage =
     validate (\<lambda>damage. damage > 0) ''Damage must be a positive number'' ''takeDamage''
       takeDamage_body"

text \<open>
  \<open>heal\<close> computes \<open>maxHealth - health\<close> and \<open>health + actualHealing\<close> on doubles; what is said
  of it below reaches statistics of any size, so both results are rounded as the doubles
  round them. \<open>Math.min\<close> returns one of its arguments.
\<close>

definition heal :: "BaseCharacter \<Rightarrow> int \<Rightarrow> int \<times> BaseCharacter" where
  "heal this amount =
     (let actualHealing =
            min amount (roundDouble (maxHealth (c_stats this) - health (c_stats this)))
      in (actualHealing,
          this\<lparr>c_stats := (c_stats this)\<lparr>health :=
                  roundDouble (health (c_stats this) + actualHealing)\<rparr>\<rparr>))"

text \<open>
  Characters are objects that several references may share, so the methods that act on
  two characters work on a store of objects addressed by references. \<open>World\<close> holds that
  store and the source of randomness: \<open>randoms\<close> is the sequence of values that
  \<open>Math.random()\<close> returns and \<open>drawn\<close> counts the calls made so far.
\<close>

type_synonym ref = nat

record World =
  heap :: "ref \<Rightarrow> BaseCharacter"
  randoms :: "nat \<Rightarrow> real"
  drawn :: nat

definition Math_random :: "World \<Rightarrow> real \<times> World" where
  "Math_random w = (randoms w (drawn w), w\<lparr>drawn := drawn w + 1\<rparr>)"

definition call_takeDamage :: "ref \<Rightarrow> int \<Rightarrow> World \<Rightarrow> (error + int) \<times> World" where
  "call_takeDamage target damage w =
     (case takeDamage (heap w target) damage of
        (res, target') \<Rightarrow> (res, w\<lparr>heap := (heap w)(target := target')\<rparr>))"

definition BaseCharacter_attack :: "ref \<Rightarrow> ref \<Rightarrow> World \<Rightarrow> (error + int) \<times> World" where
  "BaseCharacter_attack this target w =
     (if \<not> isAlive (heap w this)
      then (Inl (CannotAttackWhileDefeated (name (heap w this))), w)
      else (let baseDamage = attack (c_stats (heap w this));
                criticalChance = 1 / 10
            in case Math_random w of
                 (rand, w1) \<Rightarrow>
                   (let isCritical = (rand < criticalChance);
                        damage = (if isCritical then baseDamage * 2 else baseDamage)
                    in call_takeDamage target damage w1)))"

text \<open>
  \<open>Rogue.stealthAttack\<close>: \<open>baseDamage * 1.5\<close> is a whole number since \<open>baseDamage\<close> is
  twice the attack statistic. Outside stealth it calls \<open>this.attack\<close>, which for a rogue
  outside stealth is \<open>super.attack\<close>.
\<close>

definition Rogue_stealthAttack :: "ref \<Rightarrow> ref \<Rightarrow> World \<Rightarrow> (error + int) \<times> World" where
  "Rogue_stealthAttack this target w =
     (if c_stealthActive (heap w this) \<noteq> Some True then BaseCharacter_attack this target w
      else (let w0 = w\<lparr>heap := (heap w)(this := (heap w this)\<lparr>c_stealthActive := Some False\<rparr>)\<rparr>;
                baseDamage = attack (c_stats (heap w0 this)) * 2;
                criticalChance = 1 / 2
            in case Math_random w0 of
                 (rand, w1) \<Rightarrow>
                   (let isCritical = (rand < criticalChance);
                        damage = (if isCritical then (baseDamage * 3) div 2 else baseDamage)
                    in call_takeDamage target damage w1)))"

text \<open>
  The call \<open>actor.attack(target)\<close> is dispatched on the class of \<open>actor\<close>: \<open>Rogue\<close> overrides
  \<open>attack\<close>, every other class inherits it from \<open>BaseCharacter\<close>.
\<close>

definition call_attack :: "ref \<Rightarrow> ref \<Rightarrow> World \<Rightarrow> (error + int) \<times> World" where
  "call_attack this target w =
     (if c_stealthActive (heap w this) = Some True then Rogue_stealthAttack this target w
      else BaseCharacter_attack this target w)"

section \<open>The combat resolver (combat/CombatSystem.ts)\<close>

record CombatAction =
  action_type :: ActionType
  actor :: string
  target :: "string option"
  itemId :: "string option"
  damage :: "int option"
  healing :: "int option"

record CombatResult =
  actions :: "CombatAction list"
  winner :: "string option"
  experience :: int
  loot :: "ItemData list"

record CombatParticipant =
  character :: ref
  isPlayer :: bool

record CombatSystem =
  player :: ref
  enemies :: "ref list"
  participants :: "CombatParticipant list"
  currentTurn :: nat
  combatLog :: "CombatAction list"

text \<open>
  The constructor. \<open>Array.prototype.sort\<close> is stable, and so is \<open>sort_key\<close>; the comparator
  \<open>b.character.stats.speed - a.character.stats.speed\<close> orders by descending speed.
\<close>

definition CombatSystem_new :: "World \<Rightarrow> ref \<Rightarrow> ref list \<Rightarrow> CombatSystem" where
  "CombatSystem_new w p es =
     \<lparr>player = p, enemies = es,
      participants =
        sort_key (\<lambda>a. - speed (c_stats (heap w (character a))))
          (\<lparr>character = p, isPlayer = True\<rparr> # map (\<lambda>enemy. \<lparr>character = enemy, isPlayer = False\<rparr>) es),
      currentTurn = 0, combatLog = []\<rparr>"

definition getCurrentParticipant :: "CombatSystem \<Rightarrow> CombatParticipant" where
  "getCurrentParticipant this = participants this ! (currentTurn this mod length (participants this))"

definition nextTurn :: "CombatSystem \<Rightarrow> CombatSystem" where
  "nextTurn this = this\<lparr>currentTurn := currentTurn this + 1\<rparr>"

definition isCombatOver :: "CombatSystem \<Rightarrow> World \<Rightarrow> bool" where
  "isCombatOver this w =
     (let aliveEnemies = filter (\<lambda>p. \<not> isPlayer p \<and> isAlive (heap w (character p))) (participants this);
          alivePlayer = find (\<lambda>p. isPlayer p \<and> isAlive (heap w (character p))) (participants this)
      in length aliveEnemies = 0 \<or> alivePlayer = None)"

definition findCharacterByName :: "CombatSystem \<Rightarrow> World \<Rightarrow> string \<Rightarrow> ref option" where
  "findCharacterByName this w n =
     map_option character (find (\<lambda>p. name (heap w (character p)) = n) (participants this))"

definition choosePlayerAction :: "ref \<Rightarrow> ref \<Rightarrow> World \<Rightarrow> CombatAction \<times> World" where
  "choosePlayerAction plr tgt w =
     (case Math_random w of
        (rand, w1) \<Rightarrow>
          (if rand < 7 / 10
           then \<lparr>action_type = Attack, actor = name (heap w1 plr), target = Some (name (heap w1 tgt)),
                 itemId = None, damage = None, healing = None\<rparr>
           else if rand < 9 / 10 \<and> mana (c_stats (heap w1 plr)) \<ge> 15
           then \<lparr>action_type = Attack, actor = name (heap w1 plr), target = Some (name (heap w1 tgt)),
                 itemId = None, damage = None, healing = None\<rparr>
           else \<lparr>action_type = Defend, actor = name (heap w1 plr), target = None,
                 itemId = None, damage = None, healing = None\<rparr>,
           w1))"

definition chooseEnemyAction :: "ref \<Rightarrow> ref \<Rightarrow> World \<Rightarrow> CombatAction \<times> World" where
  "chooseEnemyAction enemy tgt w =
     (case Math_random w of
        (rand, w1) \<Rightarrow>
          (if rand < 8 / 10
           then \<lparr>action_type = Attack, actor = name (heap w1 enemy), target = Some (name (heap w1 tgt)),
                 itemId = None, damage = None, healing = None\<rparr>
           else \<lparr>action_type = Defend, actor = name (heap w1 enemy), target = None,
                 itemId = None, damage = None, healing = None\<rparr>,
           w1))"

text \<open>
  \<open>executeAction\<close>. The test \<open>action.target ? \<dots> : undefined\<close> is false for a missing
  target and for the empty string. An exception of \<open>attack\<close> leaves the method before the
  action is logged.
\<close>

definition executeAction ::
  "CombatAction \<Rightarrow> CombatSystem \<Rightarrow> World \<Rightarrow> (error + unit) \<times> CombatSystem \<times> World" where
  "executeAction action this w =
     (let actor_ref = findCharacterByName this w (actor action);
          target_ref = (case target action of
                          None \<Rightarrow> None
                        | Some n \<Rightarrow> if n = [] then None else findCharacterByName this w n)
      in case actor_ref of
           None \<Rightarrow> (Inr (), this, w)
         | Some a \<Rightarrow>
             (case (action_type action, target_ref) of
                (Attack, Some t) \<Rightarrow>
                  (case call_attack a t w of
                     (Inl e, w') \<Rightarrow> (Inl e, this, w')
                   | (Inr dmg, w') \<Rightarrow>
                       (Inr (), this\<lparr>combatLog := combatLog this @ [action\<lparr>damage := Some dmg\<rparr>]\<rparr>, w'))
              | _ \<Rightarrow> (Inr (), this\<lparr>combatLog := combatLog this @ [action]\<rparr>, w)))"

definition playerTurn :: "ref \<Rightarrow> CombatSystem \<Rightarrow> World \<Rightarrow> (error + unit) \<times> CombatSystem \<times> World" where
  "playerTurn plr this w =
     (let aliveEnemies = map character
            (filter (\<lambda>p. \<not> isPlayer p \<and> isAlive (heap w (character p))) (participants this))
      in case aliveEnemies of
           [] \<Rightarrow> (Inr (), this, w)
         | tgt # _ \<Rightarrow>
             (case choosePlayerAction plr tgt w of
                (action, w1) \<Rightarrow> executeAction action this w1))"

definition enemyTurn :: "ref \<Rightarrow> CombatSystem \<Rightarrow> World \<Rightarrow> (error + unit) \<times> CombatSystem \<times> World" where
  "enemyTurn enemy this w =
     (case find (\<lambda>p. isPlayer p) (participants this) of
        None \<Rightarrow> (Inr (), this, w)
      | Some playerParticipant \<Rightarrow>
          if \<not> isAlive (heap w (character playerParticipant)) then (Inr (), this, w)
          else (case chooseEnemyAction enemy (character playerParticipant) w of
                  (action, w1) \<Rightarrow> executeAction action this w1))"

definition generateLoot :: "World \<Rightarrow> ItemData list \<times> World" where
  "generateLoot w =
     (case Math_random w of
        (rand, w1) \<Rightarrow>
          ((if rand < 3 / 10
            then [\<lparr>item_id = ''potion'', item_name = ''Health Potion'', item_type = consumable,
                   quantity = 1, item_value = 50\<rparr>]
            else [])
           @ (if rand < 1 / 10
              then [\<lparr>item_id = ''sword'', item_name = ''Iron Sword'', item_type = weapon,
                     quantity = 1, item_value = 100\<rparr>]
              else []),
           w1))"

definition calculateExperience :: "CombatSystem \<Rightarrow> World \<Rightarrow> int" where
  "calculateExperience this w =
     (let defeatedEnemies =
            filter (\<lambda>p. \<not> isPlayer p \<and> \<not> isAlive (heap w (character p))) (participants this)
      in foldl (\<lambda>exp enemy. exp + c_level (heap w (character enemy)) * 25) 0 defeatedEnemies)"

definition getCombatResult :: "CombatSystem \<Rightarrow> World \<Rightarrow> CombatResult \<times> World" where
  "getCombatResult this w =
     (let aliveEnemies = filter (\<lambda>p. \<not> isPlayer p \<and> isAlive (heap w (character p))) (participants this);
          playerAlive = find (\<lambda>p. isPlayer p \<and> isAlive (heap w (character p))) (participants this);
          (winner_name, exp) =
            (case playerAlive of
               Some pa \<Rightarrow>
                 if length aliveEnemies = 0
                 then (Some (name (heap w (character pa))), calculateExperience this w)
                 else (None, 0)
             | None \<Rightarrow>
                 ((case aliveEnemies of [] \<Rightarrow> None | e # _ \<Rightarrow> Some (name (heap w (character e)))),
                  0))
      in case generateLoot w of
           (items_found, w1) \<Rightarrow>
             (\<lparr>actions = combatLog this, winner = winner_name, experience = exp, loot = items_found\<rparr>,
              w1))"

text \<open>
  One pass through the body of the \<open>while\<close> loop of \<open>startCombat\<close>, and the loop. The loop
  has no bound on the number of turns: a run that never ends is the value \<open>None\<close>, and a
  run that an exception leaves is \<open>Some (Inl e, \<dots>)\<close>.
\<close>

definition takeTurn :: "CombatSystem \<Rightarrow> World \<Rightarrow> (error + unit) \<times> CombatSystem \<times> World" where
  "takeTurn this w =
     (let currentParticipant = getCurrentParticipant this
      in if isAlive (heap w (character currentParticipant))
         then (if isPlayer currentParticipant
               then playerTurn (character currentParticipant) this w
               else enemyTurn (character currentParticipant) this w)
         else (Inr (), this, w))"

partial_function (option) combatLoop ::
  "CombatSystem \<Rightarrow> World \<Rightarrow> ((error + unit) \<times> CombatSystem \<times> World) option" where
  "combatLoop this w =
     (if isCombatOver this w then Some (Inr (), this, w)
      else (case takeTurn this w of
              (Inl e, this', w') \<Rightarrow> Some (Inl e, this', w')
            | (Inr u, this', w') \<Rightarrow> combatLoop (nextTurn this') w'))"

definition startCombat ::
  "CombatSystem \<Rightarrow> World \<Rightarrow> ((error + CombatResult) \<times> CombatSystem \<times> World) option" where
  "startCombat this w =
     (case combatLoop this w of
        None \<Rightarrow> None
      | Some (Inl e, this', w') \<Rightarrow> Some (Inl e, this', w')
      | Some (Inr u, this', w') \<Rightarrow>
          (case getCombatResult this' w' of
             (res, w'') \<Rightarrow> Some (Inr res, this', w'')))"




text \<open>
  The names of the participants in turn order, and whether the primary participant is
  alive in the state a finished session leaves.
\<close>

definition participantNames :: "CombatSystem \<Rightarrow> World \<Rightarrow> string list" where
  "participantNames this w = map (\<lambda>p. name (heap w (character p))) (participants this)"

definition primaryAliveAfter ::
  "((error + CombatResult) \<times> CombatSystem \<times> World) option \<Rightarrow> bool option" where
  "primaryAliveAfter outcome = map_option (\<lambda>(res, this, w). isAlive (heap w (player this))) outcome"

section \<open>Example characters and sessions\<close>


text \<open>
  A fast hero with one health point (reference 0) against a goblin (1) and an orc (2),
  all alive; every draw is 0.05, so every action is an attack and every hit is critical.
\<close>

definition defeatWorld :: World where
  "defeatWorld =
     \<lparr>heap = (\<lambda>_. Warrior ''Nobody'' None)
        (0 := BaseCharacter_new ''Hero'' warrior
                \<lparr>health = 1, maxHealth = 90, mana = 50, maxMana = 50,
                 attack = 80, defense = 0, speed = 18\<rparr> None,
         1 := BaseCharacter_new ''Goblin'' warrior
                \<lparr>health = 30, maxHealth = 30, mana = 0, maxMana = 0,
                 attack = 5, defense = 15, speed = 10\<rparr> None,
         2 := Warrior ''Orc'' None),
      randoms = (\<lambda>_. 1 / 20), drawn = 0\<rparr>"

text \<open>
  A strong hero (reference 0) against two weak adversaries that have reached levels 3
  and 5 (references 1 and 2); every draw is 0.5: every action is a plain attack and no
  loot is found.
\<close>

definition victoryWorld :: World where
  "victoryWorld =
     \<lparr>heap = (\<lambda>_. Warrior ''Nobody'' None)
        (0 := Rogue ''Hero'' None,
         1 := (BaseCharacter_new ''Goblin'' warrior
                \<lparr>health = 5, maxHealth = 30, mana = 0, maxMana = 0,
                 attack = 12, defense = 15, speed = 10\<rparr> None)\<lparr>c_level := 3\<rparr>,
         2 := (BaseCharacter_new ''Wolf'' warrior
                \<lparr>health = 4, maxHealth = 40, mana = 0, maxMana = 0,
                 attack = 14, defense = 12, speed = 10\<rparr> None)\<lparr>c_level := 5\<rparr>),
      randoms = (\<lambda>_. 1 / 2), drawn = 0\<rparr>"

text \<open>
  Two characters with the statistics of the unit tests (attack 20, defense 10, health
  100); every draw is 0.05, so a hit is critical.
\<close>

definition duelWorld :: World where
  "duelWorld =
     \<lparr>heap = (\<lambda>_. BaseCharacter_new ''Enemy'' warrior
                \<lparr>health = 100, maxHealth = 100, mana = 50, maxMana = 50,
                 attack = 20, defense = 10, speed = 15\<rparr> None)
        (0 := BaseCharacter_new ''Hero'' warrior
                \<lparr>health = 100, maxHealth = 100, mana = 50, maxMana = 50,
                 attack = 20, defense = 10, speed = 15\<rparr> None),
      randoms = (\<lambda>_. 1 / 20), drawn = 0\<rparr>"



text \<open>
  A character whose maximal health, \<open>2^53 + 6\<close>, lies beyond the whole numbers that doubles
  hold without gaps, with 3 health points.
\<close>

definition titan :: BaseCharacter where
  "titan =
     BaseCharacter_new ''Titan'' warrior
       \<lparr>health = 3, maxHealth = 9007199254740998, mana = 0, maxMana = 0,
        attack = 25, defense = 15, speed = 8\<rparr> None"

section \<open>Facts about the inventory\<close>

lemma addItem_eq: "addItem this item = addItem_body this item"
  by (simp add: addItem_def validate_def)

lemma Map_get_set_same: "Map_get (Map_set m k v) k = Some v"
  by (simp add: Map_get_def Map_set_def update_conv')

lemma Map_get_set_other: "k' \<noteq> k \<Longrightarrow> Map_get (Map_set m k v) k' = Map_get m k'"
  by (simp add: Map_get_def Map_set_def update_conv')

lemma Map_get_Some_key: "Map_get m k = Some v \<Longrightarrow> k \<in> fst ` set m"
  unfolding Map_get_def by (metis map_of_eq_None_iff option.distinct(1))

lemma Map_get_None_key: "Map_get m k = None \<longleftrightarrow> k \<notin> fst ` set m"
  unfolding Map_get_def by (simp add: map_of_eq_None_iff)

lemma Map_keys_set_stored: "k \<in> fst ` set m \<Longrightarrow> map fst (Map_set m k v) = map fst m"
  by (simp add: Map_set_def update_keys)

lemma Map_size_set_stored: "k \<in> fst ` set m \<Longrightarrow> Map_size (Map_set m k v) = Map_size m"
  using Map_keys_set_stored [of k m v] unfolding Map_size_def by (metis length_map)

lemma Map_size_set_new: "k \<notin> fst ` set m \<Longrightarrow> Map_size (Map_set m k v) = Map_size m + 1"
proof -
  assume "k \<notin> fst ` set m"
  then have "map fst (Map_set m k v) = map fst m @ [k]" by (simp add: Map_set_def update_keys)
  then have "length (map fst (Map_set m k v)) = length m + 1" by simp
  then show ?thesis by (simp add: Map_size_def)
qed


lemma addItem_maxSlots: "maxSlots (snd (addItem this item)) = maxSlots this"
  by (simp add: addItem_eq addItem_body_def Let_def split: option.splits)

lemma addItem_size_le:
  assumes "Map_size (items this) \<le> maxSlots this"
  shows "Map_size (items (snd (addItem this item))) \<le> maxSlots this"
proof (cases "Map_get (items this) (item_id item)")
  case None
  then have "item_id item \<notin> fst ` set (items this)" by (simp add: Map_get_None_key)
  then have "Map_size (Map_set (items this) (item_id item) item) = Map_size (items this) + 1"
    by (rule Map_size_set_new)
  with assms None show ?thesis by (simp add: addItem_eq addItem_body_def)
next
  case (Some e)
  then have "item_id item \<in> fst ` set (items this)" by (rule Map_get_Some_key)
  then have "\<And>v. Map_size (Map_set (items this) (item_id item) v) = Map_size (items this)"
    by (rule Map_size_set_stored)
  with assms Some show ?thesis by (simp add: addItem_eq addItem_body_def Let_def)
qed

lemma addItems_maxSlots: "maxSlots (addItems this its) = maxSlots this"
  by (induction its arbitrary: this) (simp_all add: addItem_maxSlots)

lemma addItems_size_le:
  "Map_size (items this) \<le> maxSlots this \<Longrightarrow> Map_size (items (addItems this its)) \<le> maxSlots this"
proof (induction its arbitrary: this)
  case Nil
  then show ?case by simp
next
  case (Cons item rest)
  have "Map_size (items (snd (addItem this item))) \<le> maxSlots (snd (addItem this item))"
    using Cons.prems by (simp add: addItem_size_le addItem_maxSlots)
  from Cons.IH [OF this] show ?case by (simp add: addItem_maxSlots)
qed

lemma length_getAllItems: "int (length (getAllItems this)) = Map_size (items this)"
  by (simp add: getAllItems_def Map_values_def Map_size_def)

text \<open>
  Claim C1. When \<open>addItem(item)\<close> meets a stored entry with the same id that is
  stack-capable, then: if the stored quantity plus the quantity of \<open>item\<close> does not exceed
  the stored entry's \<open>maxStack\<close>, the call returns true and the stored entry carries the
  sum of the two quantities; otherwise the call returns false and the inventory is left
  as it was (all or nothing, no partial merge).
\<close>

theorem addItem_stack_all_or_nothing:
  assumes "getItem this (item_id item) = Some existing"
    and "isStackable existing"
    and "stack existing = Some s"
  shows "(quantity existing + quantity item \<le> maxStack s \<longrightarrow>
            fst (addItem this item) = Inr True \<and>
            getItem (snd (addItem this item)) (item_id item)
              = Some (existing\<lparr>quantity := quantity existing + quantity item\<rparr>))
       \<and> (\<not> quantity existing + quantity item \<le> maxStack s \<longrightarrow>
            fst (addItem this item) = Inr False \<and> snd (addItem this item) = this)"
  using assms by (simp add: addItem_eq addItem_body_def getItem_def Map_get_set_same)

theorem addItem_stack_all_or_nothing_witness:
  "fst (addItem \<lparr>items = [(''p'', Consumable ''p'' ''Potion'' 50 10)], maxSlots = 1\<rparr>
          (Consumable ''p'' ''Potion'' 60 10)) = Inr False
   \<and> snd (addItem \<lparr>items = [(''p'', Consumable ''p'' ''Potion'' 50 10)], maxSlots = 1\<rparr>
          (Consumable ''p'' ''Potion'' 60 10))
       = \<lparr>items = [(''p'', Consumable ''p'' ''Potion'' 50 10)], maxSlots = 1\<rparr>
   \<and> fst (addItem \<lparr>items = [(''p'', Consumable ''p'' ''Potion'' 50 10)], maxSlots = 1\<rparr>
          (Consumable ''p'' ''Potion'' 49 10)) = Inr True
   \<and> getItem (snd (addItem \<lparr>items = [(''p'', Consumable ''p'' ''Potion'' 50 10)], maxSlots = 1\<rparr>
                      (Consumable ''p'' ''Potion'' 49 10))) ''p''
       = Some (Consumable ''p'' ''Potion'' 99 10)"
proof -
  let ?inv = "\<lparr>items = [(''p'', Consumable ''p'' ''Potion'' 50 10)], maxSlots = 1\<rparr>"
  let ?s = "\<lparr>stackable = True, maxStack = 99\<rparr>"
  have id60: "item_id (Consumable ''p'' ''Potion'' 60 10) = ''p''"
    and id49: "item_id (Consumable ''p'' ''Potion'' 49 10) = ''p''"
    by (simp_all add: Consumable_def)
  have h1: "getItem ?inv ''p'' = Some (Consumable ''p'' ''Potion'' 50 10)"
    by (simp add: getItem_def Map_get_def)
  have h2: "isStackable (Consumable ''p'' ''Potion'' 50 10)"
    by (simp add: isStackable_def Consumable_def)
  have h3: "stack (Consumable ''p'' ''Potion'' 50 10) = Some ?s"
    by (simp add: Consumable_def)
  have q: "quantity (Consumable ''p'' ''Potion'' 50 10) = 50"
    "quantity (Consumable ''p'' ''Potion'' 60 10) = 60"
    "quantity (Consumable ''p'' ''Potion'' 49 10) = 49"
    "(Consumable ''p'' ''Potion'' 50 10)\<lparr>quantity := 99\<rparr> = Consumable ''p'' ''Potion'' 99 10"
    by (simp_all add: Consumable_def)
  from addItem_stack_all_or_nothing
         [of ?inv "Consumable ''p'' ''Potion'' 60 10", unfolded id60, OF h1 h2 h3]
    addItem_stack_all_or_nothing
         [of ?inv "Consumable ''p'' ''Potion'' 49 10", unfolded id49, OF h1 h2 h3]
  show ?thesis by (simp add: q id60 id49)
qed

text \<open>
  Claim C3. An inventory whose number of stored slots equals \<open>maxSlots\<close> is full, and in a
  full inventory \<open>addItem\<close> of an item whose id is not stored returns false (and changes
  nothing); and no sequence of \<open>addItem\<close> calls takes an inventory that holds at most
  \<open>maxSlots\<close> slots to one that holds more.
\<close>

theorem addItem_slot_capacity:
  "(int (length (getAllItems this)) = maxSlots this \<longrightarrow> isFull this)
   \<and> (isFull this \<and> getItem this (item_id item) = None
      \<longrightarrow> addItem this item = (Inr False, this))
   \<and> (int (length (getAllItems this)) \<le> maxSlots this
      \<longrightarrow> int (length (getAllItems (addItems this its))) \<le> maxSlots this
          \<and> maxSlots (addItems this its) = maxSlots this)"
proof -
  have "int (length (getAllItems this)) = maxSlots this \<longrightarrow> isFull this"
    by (simp add: length_getAllItems isFull_def)
  moreover have "isFull this \<and> getItem this (item_id item) = None
      \<longrightarrow> addItem this item = (Inr False, this)"
    by (simp add: addItem_eq addItem_body_def getItem_def isFull_def)
  moreover have "int (length (getAllItems this)) \<le> maxSlots this
      \<longrightarrow> int (length (getAllItems (addItems this its))) \<le> maxSlots this
          \<and> maxSlots (addItems this its) = maxSlots this"
    by (simp add: length_getAllItems addItems_size_le addItems_maxSlots)
  ultimately show ?thesis by blast
qed

theorem addItem_slot_capacity_witness:
  "addItem \<lparr>items = [(''sword0'', Weapon ''sword0'' ''Sword 0'' 1 100 10 None)], maxSlots = 1\<rparr>
           (Weapon ''extra'' ''Extra Sword'' 1 100 10 None)
     = (Inr False, \<lparr>items = [(''sword0'', Weapon ''sword0'' ''Sword 0'' 1 100 10 None)], maxSlots = 1\<rparr>)
   \<and> int (length (getAllItems (addItems (Inventory_new (Some 1))
         [Weapon ''sword0'' ''Sword 0'' 1 100 10 None, Weapon ''extra'' ''Extra Sword'' 1 100 10 None])))
       \<le> 1"
proof -
  let ?inv = "\<lparr>items = [(''sword0'', Weapon ''sword0'' ''Sword 0'' 1 100 10 None)], maxSlots = 1\<rparr>"
  let ?extra = "Weapon ''extra'' ''Extra Sword'' 1 100 10 None"
  have h1: "int (length (getAllItems ?inv)) = maxSlots ?inv"
    by (simp add: getAllItems_def Map_values_def)
  have h2: "getItem ?inv (item_id ?extra) = None"
    by (simp add: getItem_def Map_get_def Weapon_def)
  have h3: "int (length (getAllItems (Inventory_new (Some 1)))) \<le> maxSlots (Inventory_new (Some 1))"
    by (simp add: getAllItems_def Map_values_def Inventory_new_def)
  have m: "maxSlots (Inventory_new (Some 1)) = 1"
    by (simp add: Inventory_new_def)
  from addItem_slot_capacity [of ?inv ?extra "[]"] h1 h2
    addItem_slot_capacity [of "Inventory_new (Some 1)" ?extra
      "[Weapon ''sword0'' ''Sword 0'' 1 100 10 None, ?extra]"] h3 m
  show ?thesis by simp
qed



text \<open>
  Claim C10. In an inventory that is not full, \<open>addItem\<close> of an item whose id is that of
  a stored entry that is not stack-capable (a \<open>Weapon\<close>, say) returns true and puts the
  new item in the place of the stored one: the new item is what the id now yields, the
  slots and their order are the same, so is their number, and every other entry is
  untouched. The entry stored before, its quantity included, is gone.
\<close>

theorem addItem_replaces_nonstackable:
  assumes "\<not> isFull this"
    and "getItem this (item_id item) = Some existing"
    and "\<not> isStackable existing"
  shows "fst (addItem this item) = Inr True
    \<and> getItem (snd (addItem this item)) (item_id item) = Some item
    \<and> map fst (items (snd (addItem this item))) = map fst (items this)
    \<and> length (getAllItems (snd (addItem this item))) = length (getAllItems this)
    \<and> (\<forall>k. k \<noteq> item_id item \<longrightarrow> getItem (snd (addItem this item)) k = getItem this k)"
proof -
  from assms(2) have stored: "item_id item \<in> fst ` set (items this)"
    unfolding getItem_def by (rule Map_get_Some_key)
  from assms have eq: "addItem this item
      = (Inr True, this\<lparr>items := Map_set (items this) (item_id item) item\<rparr>)"
    by (simp add: addItem_eq addItem_body_def getItem_def isFull_def)
  have keys: "map fst (Map_set (items this) (item_id item) item) = map fst (items this)"
    using stored by (rule Map_keys_set_stored)
  have len: "length (Map_set (items this) (item_id item) item) = length (items this)"
    using keys by (metis length_map)
  show ?thesis
    by (simp add: eq getItem_def Map_get_set_same Map_get_set_other keys getAllItems_def
        Map_values_def len)
qed

theorem addItem_replaces_nonstackable_witness:
  "fst (addItem \<lparr>items = [(''sword'', Weapon ''sword'' ''Iron Sword'' 3 100 10 None),
                           (''potion'', Consumable ''potion'' ''Health Potion'' 5 50)], maxSlots = 5\<rparr>
                (Weapon ''sword'' ''Steel Sword'' 1 250 20 None)) = Inr True
   \<and> getItem (snd (addItem \<lparr>items = [(''sword'', Weapon ''sword'' ''Iron Sword'' 3 100 10 None),
                           (''potion'', Consumable ''potion'' ''Health Potion'' 5 50)], maxSlots = 5\<rparr>
                (Weapon ''sword'' ''Steel Sword'' 1 250 20 None))) ''sword''
       = Some (Weapon ''sword'' ''Steel Sword'' 1 250 20 None)
   \<and> map fst (items (snd (addItem \<lparr>items = [(''sword'', Weapon ''sword'' ''Iron Sword'' 3 100 10 None),
                           (''potion'', Consumable ''potion'' ''Health Potion'' 5 50)], maxSlots = 5\<rparr>
                (Weapon ''sword'' ''Steel Sword'' 1 250 20 None)))) = [''sword'', ''potion'']
   \<and> getItem (snd (addItem \<lparr>items = [(''sword'', Weapon ''sword'' ''Iron Sword'' 3 100 10 None),
                           (''potion'', Consumable ''potion'' ''Health Potion'' 5 50)], maxSlots = 5\<rparr>
                (Weapon ''sword'' ''Steel Sword'' 1 250 20 None))) ''potion''
       = Some (Consumable ''potion'' ''Health Potion'' 5 50)"
proof -
  let ?old = "Weapon ''sword'' ''Iron Sword'' 3 100 10 None"
  let ?new = "Weapon ''sword'' ''Steel Sword'' 1 250 20 None"
  let ?inv = "\<lparr>items = [(''sword'', ?old), (''potion'', Consumable ''potion'' ''Health Potion'' 5 50)],
               maxSlots = 5\<rparr>"
  have i: "item_id ?new = ''sword''" by (simp add: Weapon_def)
  have h1: "\<not> isFull ?inv" by (simp add: isFull_def Map_size_def)
  have h2: "getItem ?inv (item_id ?new) = Some ?old" by (simp add: getItem_def Map_get_def i)
  have h3: "\<not> isStackable ?old" by (simp add: isStackable_def Weapon_def)
  have o: "getItem ?inv ''potion'' = Some (Consumable ''potion'' ''Health Potion'' 5 50)"
    by (simp add: getItem_def Map_get_def)
  from addItem_replaces_nonstackable [OF h1 h2 h3] show ?thesis
    by (simp add: i o)
qed

section \<open>Facts about characters\<close>

lemma takeDamage_rejects:
  "d \<le> 0 \<Longrightarrow>
     takeDamage c d = (Inl (ValidationFailed ''takeDamage'' ''Damage must be a positive number''), c)"
  by (simp add: takeDamage_def validate_def)

lemma takeDamage_accepts:
  "0 < d \<Longrightarrow> takeDamage c d =
     (Inr (max 1 (d - defense (c_stats c))),
      c\<lparr>c_stats := (c_stats c)\<lparr>health :=
            max 0 (health (c_stats c) - max 1 (d - defense (c_stats c)))\<rparr>\<rparr>)"
  by (simp add: takeDamage_def validate_def takeDamage_body_def Let_def)

text \<open>
  Claim C8. For every character and every damage argument \<open>d \<le> 0\<close>, \<open>takeDamage(d)\<close>
  raises the validation error and leaves the character exactly as it was; for every
  \<open>d > 0\<close> it raises no error and returns a damage value.
\<close>

theorem takeDamage_validation:
  "(d \<le> 0 \<longrightarrow>
      takeDamage c d
        = (Inl (ValidationFailed ''takeDamage'' ''Damage must be a positive number''), c))
   \<and> (0 < d \<longrightarrow> (\<exists>dmg. fst (takeDamage c d) = Inr dmg) \<and> (\<forall>e. fst (takeDamage c d) \<noteq> Inl e))"
  by (simp add: takeDamage_rejects takeDamage_accepts)

theorem takeDamage_validation_witness:
  "takeDamage (heap duelWorld 0) 0
     = (Inl (ValidationFailed ''takeDamage'' ''Damage must be a positive number''), heap duelWorld 0)
   \<and> takeDamage (heap duelWorld 0) (- 5)
     = (Inl (ValidationFailed ''takeDamage'' ''Damage must be a positive number''), heap duelWorld 0)
   \<and> (\<exists>dmg. fst (takeDamage (heap duelWorld 0) 15) = Inr dmg)"
  using takeDamage_validation [of 0 "heap duelWorld 0"]
    takeDamage_validation [of "- 5" "heap duelWorld 0"]
    takeDamage_validation [of 15 "heap duelWorld 0"]
  by simp

lemma roundDouble_exact: "\<bar>n\<bar> \<le> 2 ^ 53 \<Longrightarrow> roundDouble n = n"
proof -
  assume a: "\<bar>n\<bar> \<le> 2 ^ 53"
  show ?thesis
  proof (cases "\<bar>n\<bar> = 2 ^ 53")
    case True
    have "bitlen (2 ^ 53 :: int) = 54" by code_simp
    then have "roundHalfEven \<bar>n\<bar> (nat (bitlen \<bar>n\<bar> - 53)) = \<bar>n\<bar>"
      by (simp add: True roundHalfEven_def)
    then show ?thesis by (simp add: roundDouble_def sgn_mult_abs)
  next
    case False
    with a have "\<bar>n\<bar> < 2 ^ 53" by simp
    then have "bitlen \<bar>n\<bar> \<le> 53" by (simp add: bitlen_le_iff_power)
    then show ?thesis by (simp add: roundDouble_def roundHalfEven_def sgn_mult_abs)
  qed
qed

lemma heal_exact:
  assumes "0 \<le> health (c_stats c)" and "health (c_stats c) \<le> maxHealth (c_stats c)"
    and "maxHealth (c_stats c) \<le> 2 ^ 53" and "0 \<le> amount"
  shows "heal c amount =
     (min amount (maxHealth (c_stats c) - health (c_stats c)),
      c\<lparr>c_stats := (c_stats c)\<lparr>health :=
            health (c_stats c) + min amount (maxHealth (c_stats c) - health (c_stats c))\<rparr>\<rparr>)"
proof -
  let ?h = "health (c_stats c)" and ?m = "maxHealth (c_stats c)"
  from assms have "\<bar>?m - ?h\<bar> \<le> 2 ^ 53" by simp
  then have d: "roundDouble (?m - ?h) = ?m - ?h" by (rule roundDouble_exact)
  from assms have "\<bar>?h + min amount (?m - ?h)\<bar> \<le> 2 ^ 53" by simp
  then have "roundDouble (?h + min amount (?m - ?h)) = ?h + min amount (?m - ?h)"
    by (rule roundDouble_exact)
  then show ?thesis by (simp add: heal_def Let_def d)
qed

text \<open>
  Claim C9, amended. For every character with \<open>0 \<le> health \<le> maxHealth\<close>, a \<open>takeDamage\<close>
  call with positive damage leaves \<open>0 \<le> health \<le> maxHealth\<close>: it does not take the health
  below 0 nor raise it, and does not change \<open>maxHealth\<close>. If moreover \<open>maxHealth\<close> is at
  most \<open>2^53\<close>, the range in which doubles hold every whole number, a \<open>heal\<close> call with a
  non-negative amount leaves \<open>0 \<le> health \<le> maxHealth\<close> too: it adds
  \<open>min(amount, maxHealth - health)\<close> to the health, which neither lowers it nor raises it
  above \<open>maxHealth\<close>, and does not change \<open>maxHealth\<close>.
\<close>

theorem health_within_bounds:
  assumes "0 \<le> health (c_stats c)" and "health (c_stats c) \<le> maxHealth (c_stats c)"
  shows "(0 < d \<longrightarrow>
            0 \<le> health (c_stats (snd (takeDamage c d)))
            \<and> health (c_stats (snd (takeDamage c d))) \<le> health (c_stats c)
            \<and> maxHealth (c_stats (snd (takeDamage c d))) = maxHealth (c_stats c))
       \<and> (0 \<le> amount \<and> maxHealth (c_stats c) \<le> 2 ^ 53 \<longrightarrow>
            health (c_stats (snd (heal c amount)))
              = health (c_stats c) + min amount (maxHealth (c_stats c) - health (c_stats c))
            \<and> health (c_stats c) \<le> health (c_stats (snd (heal c amount)))
            \<and> health (c_stats (snd (heal c amount))) \<le> maxHealth (c_stats c)
            \<and> maxHealth (c_stats (snd (heal c amount))) = maxHealth (c_stats c))"
proof -
  have "0 < d \<longrightarrow>
            0 \<le> health (c_stats (snd (takeDamage c d)))
            \<and> health (c_stats (snd (takeDamage c d))) \<le> health (c_stats c)
            \<and> maxHealth (c_stats (snd (takeDamage c d))) = maxHealth (c_stats c)"
    using assms by (auto simp add: takeDamage_accepts)
  moreover have "0 \<le> amount \<and> maxHealth (c_stats c) \<le> 2 ^ 53 \<longrightarrow>
            health (c_stats (snd (heal c amount)))
              = health (c_stats c) + min amount (maxHealth (c_stats c) - health (c_stats c))
            \<and> health (c_stats c) \<le> health (c_stats (snd (heal c amount)))
            \<and> health (c_stats (snd (heal c amount))) \<le> maxHealth (c_stats c)
            \<and> maxHealth (c_stats (snd (heal c amount))) = maxHealth (c_stats c)"
    using assms by (auto simp add: heal_exact)
  ultimately show ?thesis by blast
qed

theorem health_within_bounds_witness:
  "health (c_stats (snd (takeDamage (heap duelWorld 0) 200))) = 0
   \<and> health (c_stats (snd (takeDamage (heap duelWorld 0) 30))) = 80
   \<and> health (c_stats (snd (heal (snd (takeDamage (heap duelWorld 0) 30)) 50))) = 100
   \<and> maxHealth (c_stats (snd (heal (snd (takeDamage (heap duelWorld 0) 30)) 50))) = 100"
proof -
  let ?c = "heap duelWorld 0"
  let ?c' = "snd (takeDamage ?c 30)"
  have c: "health (c_stats ?c) = 100" "maxHealth (c_stats ?c) = 100" "defense (c_stats ?c) = 10"
    by (simp_all add: duelWorld_def BaseCharacter_new_def)
  have h: "0 \<le> health (c_stats ?c)" "health (c_stats ?c) \<le> maxHealth (c_stats ?c)"
    by (simp_all add: c)
  have v: "health (c_stats (snd (takeDamage ?c 200))) = 0" "health (c_stats ?c') = 80"
    by (simp_all add: takeDamage_accepts c)
  from health_within_bounds [OF h, of 30 0]
  have m': "maxHealth (c_stats ?c') = 100" and h': "0 \<le> health (c_stats ?c')"
    "health (c_stats ?c') \<le> maxHealth (c_stats ?c')"
    by (simp_all add: c)
  have b: "(0 :: int) \<le> 50 \<and> maxHealth (c_stats ?c') \<le> 2 ^ 53" by (simp add: m')
  from health_within_bounds [OF h', of 1 50] b
  have "health (c_stats (snd (heal ?c' 50))) = 100 \<and> maxHealth (c_stats (snd (heal ?c' 50))) = 100"
    by (simp add: m' v)
  then show ?thesis by (simp add: v)
qed

text \<open>
  The claim C9 as the specification states it, for every character with
  \<open>0 \<le> health \<le> maxHealth\<close>, fails for \<open>heal\<close> beyond \<open>2^53\<close>. With health 3 and maximal
  health \<open>2^53 + 6\<close>, \<open>heal(1e16)\<close> computes \<open>maxHealth - health = 2^53 + 3\<close>, which no double
  holds and which is rounded to \<open>2^53 + 4\<close>; the sum \<open>3 + (2^53 + 4)\<close> is rounded to
  \<open>2^53 + 8\<close>, and the health ends above the maximal health.
\<close>

theorem heal_rounding_counterexample:
  "0 \<le> health (c_stats titan)
   \<and> health (c_stats titan) \<le> maxHealth (c_stats titan)
   \<and> fst (heal titan 10000000000000000) = 9007199254740996
   \<and> health (c_stats (snd (heal titan 10000000000000000))) = 9007199254741000
   \<and> maxHealth (c_stats (snd (heal titan 10000000000000000))) = 9007199254740998
   \<and> maxHealth (c_stats (snd (heal titan 10000000000000000)))
       < health (c_stats (snd (heal titan 10000000000000000)))"
proof -
  have r: "roundDouble 9007199254740995 = 9007199254740996"
    "roundDouble 9007199254740999 = 9007199254741000"
    by code_simp+
  show ?thesis by (simp add: titan_def BaseCharacter_new_def heal_def r)
qed




section \<open>Facts about the combat resolver\<close>





lemma Math_random_heap: "heap (snd (Math_random w)) = heap w"
  by (simp add: Math_random_def)







lemma executeAction_system:
  "participants (fst (snd (executeAction act this w))) = participants this
   \<and> player (fst (snd (executeAction act this w))) = player this
   \<and> enemies (fst (snd (executeAction act this w))) = enemies this
   \<and> currentTurn (fst (snd (executeAction act this w))) = currentTurn this"
  by (simp add: executeAction_def Let_def split: option.splits ActionType.splits prod.splits sum.splits)





lemma playerTurn_system:
  "participants (fst (snd (playerTurn c this w))) = participants this
   \<and> player (fst (snd (playerTurn c this w))) = player this
   \<and> enemies (fst (snd (playerTurn c this w))) = enemies this
   \<and> currentTurn (fst (snd (playerTurn c this w))) = currentTurn this"
  by (simp add: playerTurn_def executeAction_system split: list.splits prod.splits)

lemma enemyTurn_system:
  "participants (fst (snd (enemyTurn c this w))) = participants this
   \<and> player (fst (snd (enemyTurn c this w))) = player this
   \<and> enemies (fst (snd (enemyTurn c this w))) = enemies this
   \<and> currentTurn (fst (snd (enemyTurn c this w))) = currentTurn this"
  by (simp add: enemyTurn_def executeAction_system split: option.splits prod.splits)







lemma participantNames_heap:
  "heap w1 = heap w \<Longrightarrow> participantNames this w1 = participantNames this w"
  by (simp add: participantNames_def)





lemma takeTurn_system:
  "participants (fst (snd (takeTurn this w))) = participants this
   \<and> player (fst (snd (takeTurn this w))) = player this
   \<and> enemies (fst (snd (takeTurn this w))) = enemies this
   \<and> currentTurn (fst (snd (takeTurn this w))) = currentTurn this"
  by (simp add: takeTurn_def Let_def playerTurn_system enemyTurn_system)





lemma combatLoop_result:
  assumes l: "combatLoop this w = Some out"
  shows "participants (fst (snd out)) = participants this
         \<and> player (fst (snd out)) = player this
         \<and> (\<forall>u. fst out = Inr u \<longrightarrow> isCombatOver (fst (snd out)) (snd (snd out)))"
proof (rule combatLoop.raw_induct
    [where P = "\<lambda>this w out. participants (fst (snd out)) = participants this
         \<and> player (fst (snd out)) = player this
         \<and> (\<forall>u. fst out = Inr u \<longrightarrow> isCombatOver (fst (snd out)) (snd (snd out)))", OF _ l])
  fix loop this w out
  assume IH: "\<And>this w out. loop this w = Some out \<Longrightarrow>
                participants (fst (snd out)) = participants this
                \<and> player (fst (snd out)) = player this
                \<and> (\<forall>u. fst out = Inr u \<longrightarrow> isCombatOver (fst (snd out)) (snd (snd out)))"
    and step: "(if isCombatOver this w then Some (Inr (), this, w)
                else case takeTurn this w of
                       (Inl e, this', w') \<Rightarrow> Some (Inl e, this', w')
                     | (Inr u, this', w') \<Rightarrow> loop (nextTurn this') w') = Some out"
  show "participants (fst (snd out)) = participants this
         \<and> player (fst (snd out)) = player this
         \<and> (\<forall>u. fst out = Inr u \<longrightarrow> isCombatOver (fst (snd out)) (snd (snd out)))"
  proof (cases "isCombatOver this w")
    case True
    with step show ?thesis by auto
  next
    case False
    obtain r this' w' where t: "takeTurn this w = (r, this', w')"
      by (cases "takeTurn this w") auto
    have p: "participants this' = participants this" "player this' = player this"
      using takeTurn_system [of this w] t by simp_all
    show ?thesis
    proof (cases r)
      case (Inl e)
      with step False t p show ?thesis by auto
    next
      case (Inr u)
      with step False t have "loop (nextTurn this') w' = Some out" by simp
      from IH [OF this] p show ?thesis by (simp add: nextTurn_def)
    qed
  qed
qed


lemma foldl_add_sum_list:
  "foldl (\<lambda>acc e. acc + f e) a xs = a + sum_list (map f xs)" for a :: int
  by (induction xs arbitrary: a) simp_all

lemma sum_list_map_mset_cong:
  "mset xs = mset ys \<Longrightarrow> sum_list (map f xs) = sum_list (map f ys)" for f :: "'a \<Rightarrow> int"
proof -
  assume "mset xs = mset ys"
  then have "sum_mset (image_mset f (mset xs)) = sum_mset (image_mset f (mset ys))" by simp
  then have "sum_mset (mset (map f xs)) = sum_mset (mset (map f ys))" by simp
  then show ?thesis by (simp only: sum_mset_sum_list)
qed

lemma participants_new:
  "participants (CombatSystem_new w0 p es)
     = sort_key (\<lambda>a. - speed (c_stats (heap w0 (character a))))
         (\<lparr>character = p, isPlayer = True\<rparr> # map (\<lambda>enemy. \<lparr>character = enemy, isPlayer = False\<rparr>) es)"
  by (simp add: CombatSystem_new_def)

lemma participants_new_set:
  "set (participants (CombatSystem_new w0 p es))
     = insert \<lparr>character = p, isPlayer = True\<rparr>
         ((\<lambda>enemy. \<lparr>character = enemy, isPlayer = False\<rparr>) ` set es)"
  by (simp only: participants_new set_sort list.set list.set_map)

lemma participants_new_player:
  assumes "q \<in> set (participants (CombatSystem_new w0 p es))" and "isPlayer q"
  shows "character q = p"
  using assms by (auto simp add: participants_new_set)

lemma participants_new_has_player:
  "\<exists>q \<in> set (participants (CombatSystem_new w0 p es)). isPlayer q \<and> character q = p"
  by (simp add: participants_new_set)

lemma participants_new_enemy:
  "(\<exists>q \<in> set (participants (CombatSystem_new w0 p es)). \<not> isPlayer q \<and> character q = e) \<longleftrightarrow> e \<in> set es"
  by (auto simp add: participants_new_set)

lemma calculateExperience_new:
  assumes "participants this = participants (CombatSystem_new w0 p es)"
  shows "calculateExperience this w
     = sum_list (map (\<lambda>e. c_level (heap w e) * 25) (filter (\<lambda>e. \<not> isAlive (heap w e)) es))"
proof -
  let ?P = "\<lambda>q. \<not> isPlayer q \<and> \<not> isAlive (heap w (character q))"
  let ?tag = "\<lambda>enemy. \<lparr>character = enemy, isPlayer = False\<rparr>"
  let ?all = "\<lparr>character = p, isPlayer = True\<rparr> # map ?tag es"
  let ?g = "\<lambda>q. c_level (heap w (character q)) * 25"
  have "mset (filter ?P (participants this)) = mset (filter ?P ?all)"
    by (simp only: assms participants_new mset_filter mset_sort)
  then have "sum_list (map ?g (filter ?P (participants this))) = sum_list (map ?g (filter ?P ?all))"
    by (rule sum_list_map_mset_cong)
  also have "filter ?P ?all = map ?tag (filter (\<lambda>e. \<not> isAlive (heap w e)) es)"
    by (simp add: filter_map comp_def)
  finally show ?thesis
    by (simp add: calculateExperience_def foldl_add_sum_list comp_def)
qed

lemma startCombat_Inr:
  assumes "startCombat this w = Some (Inr res, this', w')"
  shows "\<exists>w1. combatLoop this w = Some (Inr (), this', w1) \<and> getCombatResult this' w1 = (res, w')"
  using assms
  by (auto simp add: startCombat_def case_prod_beta split: option.splits sum.splits intro: prod_eqI)

lemma getCombatResult_world: "snd (getCombatResult this w) = w\<lparr>drawn := drawn w + 1\<rparr>"
  by (simp add: getCombatResult_def generateLoot_def Math_random_def Let_def case_prod_beta
      split: option.splits)

lemma getCombatResult_loot:
  "loot (fst (getCombatResult this w))
     = (if randoms w (drawn w) < 3 / 10
        then [\<lparr>item_id = ''potion'', item_name = ''Health Potion'', item_type = consumable,
               quantity = 1, item_value = 50\<rparr>] else [])
       @ (if randoms w (drawn w) < 1 / 10
          then [\<lparr>item_id = ''sword'', item_name = ''Iron Sword'', item_type = weapon,
                 quantity = 1, item_value = 100\<rparr>] else [])"
  by (simp add: getCombatResult_def generateLoot_def Math_random_def Let_def case_prod_beta
      split: option.splits)

lemma hd_filter_find:
  "(case filter P xs of [] \<Rightarrow> None | e # _ \<Rightarrow> Some (f e)) = map_option f (find P xs)"
  by (induction xs) simp_all

lemma getCombatResult_defeat:
  assumes "find (\<lambda>q. isPlayer q \<and> isAlive (heap w (character q))) (participants this) = None"
  shows "winner (fst (getCombatResult this w))
           = map_option (\<lambda>q. name (heap w (character q)))
               (find (\<lambda>q. \<not> isPlayer q \<and> isAlive (heap w (character q))) (participants this))
         \<and> experience (fst (getCombatResult this w)) = 0"
  using assms
  by (simp add: getCombatResult_def Let_def case_prod_beta hd_filter_find)

lemma getCombatResult_victory:
  assumes "find (\<lambda>q. isPlayer q \<and> isAlive (heap w (character q))) (participants this) = Some pa"
    and "filter (\<lambda>q. \<not> isPlayer q \<and> isAlive (heap w (character q))) (participants this) = []"
  shows "winner (fst (getCombatResult this w)) = Some (name (heap w (character pa)))
         \<and> experience (fst (getCombatResult this w)) = calculateExperience this w"
  using assms
  by (simp add: getCombatResult_def Let_def case_prod_beta)


lemmas session_eval =
  Warrior_def Rogue_def BaseCharacter_new_def CombatSystem_new_def sort_key_def
  isCombatOver_def takeTurn_def getCurrentParticipant_def nextTurn_def playerTurn_def
  enemyTurn_def choosePlayerAction_def chooseEnemyAction_def executeAction_def
  findCharacterByName_def call_attack_def BaseCharacter_attack_def Rogue_stealthAttack_def
  call_takeDamage_def takeDamage_def takeDamage_body_def validate_def Math_random_def
  isAlive_def getCombatResult_def generateLoot_def calculateExperience_def startCombat_def
  participantNames_def Let_def

text \<open>
  Claim C6. For every combat session that ends with the primary participant alive and
  no adversary alive, the winner is the primary participant and the experience award is
  the sum of \<open>level * 25\<close> over the adversaries that are not alive (all of them). With two
  defeated adversaries at levels 3 and 5 the award is 200.
\<close>

theorem victory_result:
  assumes run: "startCombat (CombatSystem_new w0 p es) w = Some (Inr res, this', w')"
    and alive: "isAlive (heap w' p)"
    and dead: "\<forall>e\<in>set es. \<not> isAlive (heap w' e)"
  shows "winner res = Some (name (heap w' p))
       \<and> experience res
           = sum_list (map (\<lambda>e. c_level (heap w' e) * 25) (filter (\<lambda>e. \<not> isAlive (heap w' e)) es))
       \<and> experience res = sum_list (map (\<lambda>e. c_level (heap w' e) * 25) es)"
proof -
  from startCombat_Inr [OF run] obtain w1
    where l: "combatLoop (CombatSystem_new w0 p es) w = Some (Inr (), this', w1)"
      and g: "getCombatResult this' w1 = (res, w')" by blast
  from combatLoop_result [OF l]
  have ps: "participants this' = participants (CombatSystem_new w0 p es)" by simp
  from g getCombatResult_world [of this' w1] have h: "heap w' = heap w1" by simp
  let ?pl = "\<lambda>q. isPlayer q \<and> isAlive (heap w1 (character q))"
  have "\<exists>q\<in>set (participants this'). ?pl q"
    using participants_new_has_player [of w0 p es] alive by (auto simp add: ps h)
  then obtain pa where f: "find ?pl (participants this') = Some pa"
    by (cases "find ?pl (participants this')") (auto simp add: find_None_iff)
  then have "pa \<in> set (participants this')" and "isPlayer pa"
    by (auto simp add: find_Some_iff)
  then have pa: "character pa = p" using participants_new_player by (simp add: ps)
  have e: "filter (\<lambda>q. \<not> isPlayer q \<and> isAlive (heap w1 (character q))) (participants this') = []"
    using dead participants_new_enemy [of w0 p es] by (auto simp add: filter_empty_conv ps h)
  have all: "filter (\<lambda>e. \<not> isAlive (heap w1 e)) es = es"
    using dead by (simp add: h)
  from getCombatResult_victory [OF f e] g calculateExperience_new [OF ps, of w1]
  show ?thesis by (simp add: pa h all)
qed

theorem victory_result_witness:
  "\<exists>res this' w'.
     startCombat (CombatSystem_new victoryWorld 0 [1, 2]) victoryWorld = Some (Inr res, this', w')
     \<and> isAlive (heap w' 0) \<and> \<not> isAlive (heap w' 1) \<and> \<not> isAlive (heap w' 2)
     \<and> c_level (heap w' 1) = 3 \<and> c_level (heap w' 2) = 5
     \<and> winner res = Some ''Hero'' \<and> experience res = 200"
proof -
  have "\<exists>res this' w'.
     startCombat (CombatSystem_new victoryWorld 0 [1, 2]) victoryWorld = Some (Inr res, this', w')
     \<and> isAlive (heap w' 0) \<and> \<not> isAlive (heap w' 1) \<and> \<not> isAlive (heap w' 2)
     \<and> c_level (heap w' 1) = 3 \<and> c_level (heap w' 2) = 5 \<and> name (heap w' 0) = ''Hero''"
    by (simp add: victoryWorld_def combatLoop.simps session_eval)
  then obtain res this' w'
    where run: "startCombat (CombatSystem_new victoryWorld 0 [1, 2]) victoryWorld
                  = Some (Inr res, this', w')"
      and st: "isAlive (heap w' 0)" "\<not> isAlive (heap w' 1)" "\<not> isAlive (heap w' 2)"
        "c_level (heap w' 1) = 3" "c_level (heap w' 2) = 5" "name (heap w' 0) = ''Hero''"
    by blast
  from st have dead: "\<forall>e\<in>set [1, 2]. \<not> isAlive (heap w' e)" by simp
  from victory_result [OF run st(1) dead] st
  have "winner res = Some ''Hero'' \<and> experience res = 200" by simp
  with run st show ?thesis by blast
qed

text \<open>
  Claim C5, amended. For every combat session that ends with the primary participant
  not alive, the turn order is the one the session started with, the winner of the
  \<open>CombatResult\<close> is the first adversary in turn order that is alive (and absent when no
  adversary is alive), the experience award is 0, and the loot is the loot table
  evaluated on one random draw, the last of the session, as it is after a victory: a
  potion when the draw is below 0.3, followed by a sword when it is below 0.1.
\<close>

theorem defeat_result:
  assumes run: "startCombat (CombatSystem_new w0 p es) w = Some (Inr res, this', w')"
    and dead: "\<not> isAlive (heap w' p)"
  shows "participants this' = participants (CombatSystem_new w0 p es)
       \<and> winner res
           = map_option (\<lambda>q. name (heap w' (character q)))
               (find (\<lambda>q. \<not> isPlayer q \<and> isAlive (heap w' (character q))) (participants this'))
       \<and> experience res = 0
       \<and> loot res
           = (if randoms w' (drawn w' - 1) < 3 / 10
              then [\<lparr>item_id = ''potion'', item_name = ''Health Potion'', item_type = consumable,
                     quantity = 1, item_value = 50\<rparr>] else [])
             @ (if randoms w' (drawn w' - 1) < 1 / 10
                then [\<lparr>item_id = ''sword'', item_name = ''Iron Sword'', item_type = weapon,
                       quantity = 1, item_value = 100\<rparr>] else [])"
proof -
  from startCombat_Inr [OF run] obtain w1
    where l: "combatLoop (CombatSystem_new w0 p es) w = Some (Inr (), this', w1)"
      and g: "getCombatResult this' w1 = (res, w')" by blast
  from combatLoop_result [OF l]
  have ps: "participants this' = participants (CombatSystem_new w0 p es)" by simp
  from g getCombatResult_world [of this' w1]
  have w': "w' = w1\<lparr>drawn := drawn w1 + 1\<rparr>" by simp
  then have h: "heap w' = heap w1" by simp
  have f: "find (\<lambda>q. isPlayer q \<and> isAlive (heap w1 (character q))) (participants this') = None"
    using dead participants_new_player [of _ w0 p es] by (auto simp add: find_None_iff ps h)
  from getCombatResult_defeat [OF f] getCombatResult_loot [of this' w1] g
  show ?thesis unfolding w' by (simp add: ps)
qed

theorem defeat_result_witness:
  "\<exists>res this' w'.
     startCombat (CombatSystem_new defeatWorld 0 [1, 2]) defeatWorld = Some (Inr res, this', w')
     \<and> \<not> isAlive (heap w' 0) \<and> \<not> isAlive (heap w' 1) \<and> isAlive (heap w' 2)
     \<and> winner res = Some ''Orc'' \<and> experience res = 0
     \<and> loot res
         = [\<lparr>item_id = ''potion'', item_name = ''Health Potion'', item_type = consumable,
             quantity = 1, item_value = 50\<rparr>,
            \<lparr>item_id = ''sword'', item_name = ''Iron Sword'', item_type = weapon,
             quantity = 1, item_value = 100\<rparr>]"
proof -
  have "\<exists>res this' w'.
     startCombat (CombatSystem_new defeatWorld 0 [1, 2]) defeatWorld = Some (Inr res, this', w')
     \<and> \<not> isAlive (heap w' 0) \<and> \<not> isAlive (heap w' 1) \<and> isAlive (heap w' 2)
     \<and> name (heap w' 2) = ''Orc'' \<and> randoms w' (drawn w' - 1) = 1 / 20"
    by (simp add: defeatWorld_def combatLoop.simps session_eval)
  then obtain res this' w'
    where run: "startCombat (CombatSystem_new defeatWorld 0 [1, 2]) defeatWorld
                  = Some (Inr res, this', w')"
      and st: "\<not> isAlive (heap w' 0)" "\<not> isAlive (heap w' 1)" "isAlive (heap w' 2)"
        "name (heap w' 2) = ''Orc''" "randoms w' (drawn w' - 1) = 1 / 20"
    by blast
  have ps: "participants (CombatSystem_new defeatWorld 0 [1, 2])
              = [\<lparr>character = 0, isPlayer = True\<rparr>, \<lparr>character = 1, isPlayer = False\<rparr>,
                 \<lparr>character = 2, isPlayer = False\<rparr>]"
    by (simp add: defeatWorld_def session_eval)
  from defeat_result [OF run st(1)] st
  have "winner res = Some ''Orc'' \<and> experience res = 0
     \<and> loot res
         = [\<lparr>item_id = ''potion'', item_name = ''Health Potion'', item_type = consumable,
             quantity = 1, item_value = 50\<rparr>,
            \<lparr>item_id = ''sword'', item_name = ''Iron Sword'', item_type = weapon,
             quantity = 1, item_value = 100\<rparr>]"
    by (simp add: ps ps [unfolded One_nat_def])
  with run st show ?thesis by blast
qed

text \<open>
  The claim C5 as the specification states it (the winner is the first adversary found,
  dead or alive, and the result contains no loot) fails in the session of \<open>defeatWorld\<close>:
  the hero kills the goblin, the first adversary in turn order, and is then killed by
  the orc. The session ends with the primary participant not alive, the winner is the
  orc, and the loot holds a potion and a sword.
\<close>

theorem defeat_loot_counterexample:
  "participantNames (CombatSystem_new defeatWorld 0 [1, 2]) defeatWorld = [''Hero'', ''Goblin'', ''Orc'']
   \<and> primaryAliveAfter (startCombat (CombatSystem_new defeatWorld 0 [1, 2]) defeatWorld) = Some False
   \<and> map_option fst (startCombat (CombatSystem_new defeatWorld 0 [1, 2]) defeatWorld)
       = Some (Inr \<lparr>actions =
                      [\<lparr>action_type = Attack, actor = ''Hero'', target = Some ''Goblin'',
                        itemId = None, damage = Some 145, healing = None\<rparr>,
                       \<lparr>action_type = Attack, actor = ''Orc'', target = Some ''Hero'',
                        itemId = None, damage = Some 50, healing = None\<rparr>],
                    winner = Some ''Orc'', experience = 0,
                    loot =
                      [\<lparr>item_id = ''potion'', item_name = ''Health Potion'', item_type = consumable,
                        quantity = 1, item_value = 50\<rparr>,
                       \<lparr>item_id = ''sword'', item_name = ''Iron Sword'', item_type = weapon,
                        quantity = 1, item_value = 100\<rparr>]\<rparr>)"
  by (simp add: defeatWorld_def primaryAliveAfter_def combatLoop.simps session_eval)












end
